theory Spec2Isabelle
  imports Main "HOL-Library.Sublist"
begin

section \<open>Python string primitives used by \<^verbatim>\<open>sql_query.py\<close>\<close>

text \<open>
  A Python \<^verbatim>\<open>str\<close> is modelled as a \<^typ>\<open>string\<close>, one \<^typ>\<open>char\<close> per code point, for the
  code points 0..255. \<^verbatim>\<open>str.isspace\<close> on that range holds for the characters
  9..13, 28..32, 133 and 160.
\<close>

definition py_isspace :: "char \<Rightarrow> bool" where
  "py_isspace c \<longleftrightarrow>
     (of_char c :: nat) \<in> {9, 10, 11, 12, 13, 28, 29, 30, 31, 32, 133, 160}"

text \<open>\<^verbatim>\<open>s.strip()\<close>: whitespace removed at both ends.\<close>

definition py_strip :: "string \<Rightarrow> string" where
  "py_strip s = rev (dropWhile py_isspace (rev (dropWhile py_isspace s)))"

text \<open>
  \<^verbatim>\<open>s.strip(chars)\<close>: the argument is a set of characters; every leading and trailing
  character that belongs to it is removed.
\<close>

definition py_strip_chars :: "string \<Rightarrow> string \<Rightarrow> string" where
  "py_strip_chars s chars =
     rev (dropWhile (\<lambda>c. c \<in> set chars) (rev (dropWhile (\<lambda>c. c \<in> set chars) s)))"

text \<open>
  \<^verbatim>\<open>s.find(sub)\<close>: the lowest index at which \<^verbatim>\<open>sub\<close> occurs in \<^verbatim>\<open>s\<close>, or -1.
  \<open>find_index\<close> is the scan, \<open>py_find\<close> the Python result.
\<close>

fun find_index :: "'a list \<Rightarrow> 'a list \<Rightarrow> nat option" where
  "find_index sub [] = (if sub = [] then Some 0 else None)"
| "find_index sub (c # cs) =
     (if prefix sub (c # cs) then Some 0 else map_option Suc (find_index sub cs))"

definition py_find :: "string \<Rightarrow> string \<Rightarrow> int" where
  "py_find s sub = (case find_index sub s of None \<Rightarrow> - 1 | Some i \<Rightarrow> int i)"

text \<open>\<^verbatim>\<open>s.startswith(p)\<close>.\<close>

definition py_startswith :: "string \<Rightarrow> string \<Rightarrow> bool" where
  "py_startswith s p \<longleftrightarrow> prefix p s"

text \<open>
  The slices \<^verbatim>\<open>s[i:]\<close> and \<^verbatim>\<open>s[:i]\<close>; a negative index counts from the end and is
  clipped at the start of the string.
\<close>

definition py_slice_from :: "string \<Rightarrow> int \<Rightarrow> string" where
  "py_slice_from s i =
     (if i < 0 then drop (nat (int (length s) + i)) s else drop (nat i) s)"

definition py_slice_to :: "string \<Rightarrow> int \<Rightarrow> string" where
  "py_slice_to s i =
     (if i < 0 then take (nat (int (length s) + i)) s else take (nat i) s)"

text \<open>
  \<^verbatim>\<open>s.replace(old, new)\<close>: the occurrences of \<^verbatim>\<open>old\<close> are replaced from left to right,
  without overlap; an empty \<^verbatim>\<open>old\<close> matches before every character and at the end.
\<close>

function py_replace :: "string \<Rightarrow> string \<Rightarrow> string \<Rightarrow> string" where
  "py_replace [] old new = (if old = [] then new else [])"
| "py_replace (c # cs) old new =
     (if old = [] then new @ c # py_replace cs old new
      else if prefix old (c # cs) then new @ py_replace (drop (length old) (c # cs)) old new
      else c # py_replace cs old new)"
  by pat_completeness auto
termination
  by (relation "measure (\<lambda>(s, old, new). length s)") auto

text \<open>\<^verbatim>\<open>sep.join(xs)\<close>.\<close>

fun py_join :: "string \<Rightarrow> string list \<Rightarrow> string" where
  "py_join sep [] = []"
| "py_join sep [x] = x"
| "py_join sep (x # y # ys) = x @ sep @ py_join sep (y # ys)"

section \<open>SQL extraction\<close>

text \<open>
  \<^verbatim>\<open>BaseSQLTableQueryEngine._parse_response_to_sql\<close> (lines 278-289). The query bundle
  is not read by this method.
\<close>

definition parse_response_to_sql :: "string \<Rightarrow> string" where
  "parse_response_to_sql response =
     (let sql_query_start = py_find response ''SQLQuery:'';
          response1 =
            (if sql_query_start \<noteq> - 1 then
               (let r = py_slice_from response sql_query_start
                in if py_startswith r ''SQLQuery:''
                   then py_slice_from r (int (length ''SQLQuery:'')) else r)
             else response);
          sql_result_start = py_find response1 ''SQLResult:'';
          response2 =
            (if sql_result_start \<noteq> - 1 then py_slice_to response1 sql_result_start
             else response1)
      in py_strip (py_strip_chars (py_strip response2) ''```''))"

section \<open>Data model\<close>

text \<open>
  Exceptions. The three \<^verbatim>\<open>ValueError\<close>s are the ones this module raises itself (lines 173,
  241 and 420); \<open>AttributeError\<close> is what \<^verbatim>\<open>None.update(...)\<close> raises (lines 331, 369);
  \<open>Raised x\<close> is an exception \<open>x\<close> that leaves a collaborator and propagates unchanged.
\<close>

datatype table_entry =
    StrEntry string  \<comment> \<open>a \<^verbatim>\<open>str\<close>: the table name\<close>
  | TableEntry string  \<comment> \<open>a \<^verbatim>\<open>sqlalchemy.Table\<close> with this \<^verbatim>\<open>name\<close>\<close>
  | OtherEntry string  \<comment> \<open>any other object, with its \<^verbatim>\<open>str()\<close>\<close>

datatype 'x error =
    ValueError_context_dict
  | ValueError_template_vars
  | ValueError_unknown_table table_entry
  | AttributeError
  | Raised 'x

text \<open>
  A metadata dictionary \<^verbatim>\<open>Dict[str, Any]\<close>: a map from keys to values, a value being a
  string or some other object.
\<close>

datatype 'v py_value = PyStr string | PyObj 'v

type_synonym 'v metadata_dict = "string \<rightharpoonup> 'v py_value"

text \<open>
  \<^verbatim>\<open>Response\<close>: the answer text and the metadata, which is \<^verbatim>\<open>Optional[Dict]\<close> (the module
  casts it to \<^verbatim>\<open>Dict\<close> before updating it).
\<close>

record 'v Response =
  response :: string
  metadata :: "'v metadata_dict option"

text \<open>
  Modelled from the spec: the prompt template class is imported, not defined here. A template
  has its text, the variable names it declares (\<^verbatim>\<open>template_vars\<close>) and the variables already
  bound (\<^verbatim>\<open>kwargs\<close>); \<^verbatim>\<open>partial_format\<close> binds more of them.
\<close>

record prompt_template =
  template :: string
  template_vars :: "string list"
  kwargs :: "string \<rightharpoonup> string"

definition partial_format :: "prompt_template \<Rightarrow> (string \<rightharpoonup> string) \<Rightarrow> prompt_template" where
  "partial_format p bindings = p\<lparr>kwargs := kwargs p ++ bindings\<rparr>"

text \<open>
  \<^verbatim>\<open>DEFAULT_RESPONSE_SYNTHESIS_PROMPT_TMPL_V2\<close> and \<^verbatim>\<open>DEFAULT_RESPONSE_SYNTHESIS_PROMPT_V2\<close>
  (lines 49-59). The variables are the placeholders of the text, in their order there.
\<close>

definition DEFAULT_RESPONSE_SYNTHESIS_PROMPT_TMPL_V2 :: string where
  "DEFAULT_RESPONSE_SYNTHESIS_PROMPT_TMPL_V2 =
     ''Given an input question, synthesize a response from the query results.'' @ [CHR 0x0A] @
     ''Query: {query_str}'' @ [CHR 0x0A] @
     ''SQL: {sql_query}'' @ [CHR 0x0A] @
     ''SQL Response: {context_str}'' @ [CHR 0x0A] @
     ''Response: ''"

definition DEFAULT_RESPONSE_SYNTHESIS_PROMPT_V2 :: prompt_template where
  "DEFAULT_RESPONSE_SYNTHESIS_PROMPT_V2 =
     \<lparr>template = DEFAULT_RESPONSE_SYNTHESIS_PROMPT_TMPL_V2,
      template_vars = [''query_str'', ''sql_query'', ''context_str''],
      kwargs = Map.empty\<rparr>"

text \<open>
  The collaborators, each a function that returns its result or raises (\<open>Inl\<close>).
  \<^verbatim>\<open>SQLDatabase\<close>:
\<close>

record ('x, 'v) SQLDatabase =
  dialect :: string
  get_usable_table_names :: "'x + string list"
  get_single_table_info :: "string \<Rightarrow> 'x + string"
  run_sql :: "string \<Rightarrow> 'x + string \<times> 'v metadata_dict"

text \<open>
  \<^verbatim>\<open>ServiceContext\<close>: the predictor (\<^verbatim>\<open>llm_predictor.predict(template, **bindings)\<close> and
  \<^verbatim>\<open>apredict\<close>), the embedding model and the synthesizer that \<^verbatim>\<open>get_response_synthesizer\<close>
  builds from this context for a given \<^verbatim>\<open>text_qa_template\<close>: \<open>synthesize t q texts\<close> is
  \<^verbatim>\<open>synthesize(query=q, nodes=[...])\<close> on nodes with these texts. \<open>query_embedding_str q\<close> is
  \<^verbatim>\<open>str(embed_model.get_query_embedding(q))\<close>; the floats themselves are not modelled.
\<close>

record ('x, 'v) ServiceContext =
  predict :: "prompt_template \<Rightarrow> (string \<rightharpoonup> string) \<Rightarrow> 'x + string"
  apredict :: "prompt_template \<Rightarrow> (string \<rightharpoonup> string) \<Rightarrow> 'x + string"
  query_embedding_str :: "string \<Rightarrow> 'x + string"
  synthesize :: "prompt_template \<Rightarrow> string \<Rightarrow> string list \<Rightarrow> 'x + 'v Response"
  asynthesize :: "prompt_template \<Rightarrow> string \<Rightarrow> string list \<Rightarrow> 'x + 'v Response"

text \<open>\<^verbatim>\<open>SQLTableSchema\<close>: what the table retriever returns.\<close>

record SQLTableSchema =
  table_name :: string
  context_str :: "string option"

text \<open>
  The three concrete subclasses of \<^verbatim>\<open>BaseSQLTableQueryEngine\<close>, with the fields each adds:
  \<^verbatim>\<open>_tables\<close>, or \<^verbatim>\<open>_table_retriever\<close> and \<^verbatim>\<open>_context_str_prefix\<close>. A query bundle is its
  \<^verbatim>\<open>query_str\<close>.
\<close>

datatype 'x engine_class =
    NLSQLTableQueryEngine "table_entry list option"
  | PGVectorSQLQueryEngine "table_entry list option"
  | SQLTableRetrieverQueryEngine "string \<Rightarrow> 'x + SQLTableSchema list" "string option"

record ('x, 'v) query_engine =
  sql_database :: "('x, 'v) SQLDatabase"
  service_context :: "('x, 'v) ServiceContext"
  text_to_sql_prompt :: prompt_template
  response_synthesis_prompt :: prompt_template
  context_query_kwargs :: "string \<rightharpoonup> string"
  synthesize_response :: bool

record ('x, 'v) engine = "('x, 'v) query_engine" +
  cls :: "'x engine_class"

text \<open>
  The legacy \<^verbatim>\<open>NLStructStoreQueryEngine\<close> keeps the same fields, taken from its index, and
  the index's \<^verbatim>\<open>SQLContextContainer\<close>; \<^verbatim>\<open>context_dict\<close> is a dictionary, kept in insertion
  order.
\<close>

record SQLContextContainer =
  context_str :: "string option"
  context_dict :: "(string \<times> string) list option"

record ('x, 'v) NLStructStoreQueryEngine = "('x, 'v) query_engine" +
  sql_context_container :: SQLContextContainer

text \<open>
  The imported defaults: \<^verbatim>\<open>DEFAULT_TEXT_TO_SQL_PROMPT\<close>, \<^verbatim>\<open>DEFAULT_TEXT_TO_SQL_PGVECTOR_PROMPT\<close>
  and \<^verbatim>\<open>ServiceContext.from_defaults()\<close>.
\<close>

record ('x, 'v) defaults =
  DEFAULT_TEXT_TO_SQL_PROMPT :: prompt_template
  DEFAULT_TEXT_TO_SQL_PGVECTOR_PROMPT :: prompt_template
  from_defaults :: "('x, 'v) ServiceContext"

section \<open>Construction\<close>

text \<open>\<^verbatim>\<open>_validate_prompt\<close> (lines 235-244).\<close>

definition validate_prompt :: "prompt_template \<Rightarrow> 'x error + unit" where
  "validate_prompt p =
     (if template_vars p \<noteq> template_vars DEFAULT_RESPONSE_SYNTHESIS_PROMPT_V2
      then Inl ValueError_template_vars else Inr ())"

text \<open>\<^verbatim>\<open>x or d\<close> on an optional object that is true when present.\<close>

definition or_default :: "'a option \<Rightarrow> 'a \<Rightarrow> 'a" where
  "or_default x d = (case x of None \<Rightarrow> d | Some v \<Rightarrow> v)"

text \<open>
  \<^verbatim>\<open>BaseSQLTableQueryEngine.__init__\<close> (lines 248-271), reached through the constructor of
  each subclass; \<open>c\<close> carries the subclass's own fields.
\<close>

definition base_init ::
  "('x, 'v) defaults \<Rightarrow> 'x engine_class \<Rightarrow> ('x, 'v) SQLDatabase \<Rightarrow> prompt_template option \<Rightarrow>
   (string \<rightharpoonup> string) option \<Rightarrow> bool \<Rightarrow> prompt_template option \<Rightarrow>
   ('x, 'v) ServiceContext option \<Rightarrow> 'x error + ('x, 'v) engine" where
  "base_init dflt c db t2s ctx_kwargs synth rsp sc =
     (let sc' = or_default sc (from_defaults dflt);
          t2s' = or_default t2s (DEFAULT_TEXT_TO_SQL_PROMPT dflt);
          rsp' = or_default rsp DEFAULT_RESPONSE_SYNTHESIS_PROMPT_V2
      in case validate_prompt rsp' of
           Inl e \<Rightarrow> Inl e
         | Inr _ \<Rightarrow>
             Inr \<lparr>sql_database = db, service_context = sc', text_to_sql_prompt = t2s',
                  response_synthesis_prompt = rsp',
                  context_query_kwargs = or_default ctx_kwargs Map.empty,
                  synthesize_response = synth, cls = c\<rparr>)"

text \<open>The constructors of the subclasses (lines 383-404, 456-478, 504-527).\<close>

definition NLSQLTableQueryEngine_init ::
  "('x, 'v) defaults \<Rightarrow> ('x, 'v) SQLDatabase \<Rightarrow> prompt_template option \<Rightarrow>
   (string \<rightharpoonup> string) option \<Rightarrow> bool \<Rightarrow> prompt_template option \<Rightarrow>
   table_entry list option \<Rightarrow> ('x, 'v) ServiceContext option \<Rightarrow> 'x error + ('x, 'v) engine" where
  "NLSQLTableQueryEngine_init dflt db t2s ctx_kwargs synth rsp tables sc =
     base_init dflt (NLSQLTableQueryEngine tables) db t2s ctx_kwargs synth rsp sc"

definition PGVectorSQLQueryEngine_init ::
  "('x, 'v) defaults \<Rightarrow> ('x, 'v) SQLDatabase \<Rightarrow> prompt_template option \<Rightarrow>
   (string \<rightharpoonup> string) option \<Rightarrow> bool \<Rightarrow> prompt_template option \<Rightarrow>
   table_entry list option \<Rightarrow> ('x, 'v) ServiceContext option \<Rightarrow> 'x error + ('x, 'v) engine" where
  "PGVectorSQLQueryEngine_init dflt db t2s ctx_kwargs synth rsp tables sc =
     base_init dflt (PGVectorSQLQueryEngine tables) db
       (Some (or_default t2s (DEFAULT_TEXT_TO_SQL_PGVECTOR_PROMPT dflt))) ctx_kwargs synth rsp sc"

definition SQLTableRetrieverQueryEngine_init ::
  "('x, 'v) defaults \<Rightarrow> ('x, 'v) SQLDatabase \<Rightarrow> (string \<Rightarrow> 'x + SQLTableSchema list) \<Rightarrow>
   prompt_template option \<Rightarrow> (string \<rightharpoonup> string) option \<Rightarrow> bool \<Rightarrow> prompt_template option \<Rightarrow>
   ('x, 'v) ServiceContext option \<Rightarrow> string option \<Rightarrow> 'x error + ('x, 'v) engine" where
  "SQLTableRetrieverQueryEngine_init dflt db retriever t2s ctx_kwargs synth rsp sc prefix_str =
     base_init dflt (SQLTableRetrieverQueryEngine retriever prefix_str) db t2s ctx_kwargs synth
       rsp sc"

section \<open>Table context providers\<close>

text \<open>
  The annotation both loops of \<^verbatim>\<open>NLSQLTableQueryEngine._get_table_context\<close> append when
  \<^verbatim>\<open>context_query_kwargs.get(name, None) is not None\<close> (lines 423-426, 436-439).
\<close>

definition add_table_opt_context :: "string \<Rightarrow> string option \<Rightarrow> string" where
  "add_table_opt_context table_info ctx =
     (case ctx of None \<Rightarrow> table_info
      | Some d \<Rightarrow> table_info @ '' The table description is: '' @ d)"

text \<open>
  Lines 415-420: two separate \<^verbatim>\<open>if\<close> statements. The first sets \<^verbatim>\<open>table_str\<close> for a
  \<^verbatim>\<open>Table\<close>; the second takes the string, and its \<^verbatim>\<open>else\<close> raises for everything that is
  not a \<^verbatim>\<open>str\<close>.
\<close>

definition table_str_of :: "table_entry \<Rightarrow> 'x error + string" where
  "table_str_of table =
     (let table_str = (case table of TableEntry n \<Rightarrow> Some n | _ \<Rightarrow> None)
      in case table of
           StrEntry s \<Rightarrow> Inr s
         | _ \<Rightarrow> Inl (ValueError_unknown_table table))"

text \<open>The loop over \<^verbatim>\<open>self._tables\<close> (lines 414-428).\<close>

fun tables_loop ::
  "('x, 'v) SQLDatabase \<Rightarrow> (string \<rightharpoonup> string) \<Rightarrow> table_entry list \<Rightarrow> string list \<Rightarrow>
   'x error + string list" where
  "tables_loop db kw [] context_strs = Inr context_strs"
| "tables_loop db kw (table # rest) context_strs =
     (case table_str_of table of
        Inl e \<Rightarrow> Inl e
      | Inr table_str \<Rightarrow>
          (case get_single_table_info db table_str of
             Inl x \<Rightarrow> Inl (Raised x)
           | Inr table_info \<Rightarrow>
               tables_loop db kw rest
                 (context_strs @ [add_table_opt_context table_info (kw table_str)])))"

text \<open>The loop over all usable table names (lines 433-441).\<close>

fun table_names_loop ::
  "('x, 'v) SQLDatabase \<Rightarrow> (string \<rightharpoonup> string) \<Rightarrow> string list \<Rightarrow> string list \<Rightarrow>
   'x error + string list" where
  "table_names_loop db kw [] context_strs = Inr context_strs"
| "table_names_loop db kw (name # rest) context_strs =
     (case get_single_table_info db name of
        Inl x \<Rightarrow> Inl (Raised x)
      | Inr table_info \<Rightarrow>
          table_names_loop db kw rest
            (context_strs @ [add_table_opt_context table_info (kw name)]))"

text \<open>
  \<^verbatim>\<open>NLSQLTableQueryEngine._get_table_context\<close> (lines 406-443); \<^verbatim>\<open>if self._tables\<close> is false
  for \<^verbatim>\<open>None\<close> and for the empty list.
\<close>

definition NLSQLTable_get_table_context ::
  "('x, 'v) SQLDatabase \<Rightarrow> (string \<rightharpoonup> string) \<Rightarrow> table_entry list option \<Rightarrow>
   'x error + string" where
  "NLSQLTable_get_table_context db kw tables =
     (case (if tables \<noteq> None \<and> tables \<noteq> Some []
            then tables_loop db kw (the tables) []
            else (case get_usable_table_names db of
                    Inl x \<Rightarrow> Inl (Raised x)
                  | Inr table_names \<Rightarrow> table_names_loop db kw table_names [])) of
        Inl e \<Rightarrow> Inl e
      | Inr context_strs \<Rightarrow> Inr (py_join [CHR 0x0A, CHR 0x0A] context_strs))"

text \<open>
  The loop of \<^verbatim>\<open>SQLTableRetrieverQueryEngine._get_table_context\<close> (lines 540-550);
  \<^verbatim>\<open>if table_schema_obj.context_str\<close> is false for \<^verbatim>\<open>None\<close> and for the empty string.
\<close>

fun table_schema_loop ::
  "('x, 'v) SQLDatabase \<Rightarrow> SQLTableSchema list \<Rightarrow> string list \<Rightarrow> 'x error + string list" where
  "table_schema_loop db [] context_strs = Inr context_strs"
| "table_schema_loop db (table_schema_obj # rest) context_strs =
     (case get_single_table_info db (table_name table_schema_obj) of
        Inl x \<Rightarrow> Inl (Raised x)
      | Inr table_info \<Rightarrow>
          table_schema_loop db rest
            (context_strs @
              [if SQLTableSchema.context_str table_schema_obj \<noteq> None \<and>
                  SQLTableSchema.context_str table_schema_obj \<noteq> Some []
               then table_info @ '' The table description is: '' @
                    the (SQLTableSchema.context_str table_schema_obj)
               else table_info]))"

text \<open>\<^verbatim>\<open>SQLTableRetrieverQueryEngine._get_table_context\<close> (lines 529-552).\<close>

definition SQLTableRetriever_get_table_context ::
  "('x, 'v) SQLDatabase \<Rightarrow> (string \<Rightarrow> 'x + SQLTableSchema list) \<Rightarrow> string option \<Rightarrow> string \<Rightarrow>
   'x error + string" where
  "SQLTableRetriever_get_table_context db table_retriever context_str_prefix query_bundle =
     (let context_strs = (case context_str_prefix of None \<Rightarrow> [] | Some p \<Rightarrow> [p])
      in case table_retriever query_bundle of
           Inl x \<Rightarrow> Inl (Raised x)
         | Inr table_schema_objs \<Rightarrow>
             (case table_schema_loop db table_schema_objs context_strs of
                Inl e \<Rightarrow> Inl e
              | Inr strs \<Rightarrow> Inr (py_join [CHR 0x0A, CHR 0x0A] strs)))"

text \<open>The method \<^verbatim>\<open>_get_table_context\<close> of an engine, by its class.\<close>

definition get_table_context :: "('x, 'v) engine \<Rightarrow> string \<Rightarrow> 'x error + string" where
  "get_table_context e query_bundle =
     (case cls e of
        NLSQLTableQueryEngine tables \<Rightarrow>
          NLSQLTable_get_table_context (sql_database e) (context_query_kwargs e) tables
      | PGVectorSQLQueryEngine tables \<Rightarrow>
          NLSQLTable_get_table_context (sql_database e) (context_query_kwargs e) tables
      | SQLTableRetrieverQueryEngine table_retriever context_str_prefix \<Rightarrow>
          SQLTableRetriever_get_table_context (sql_database e) table_retriever
            context_str_prefix query_bundle)"

section \<open>Vector-aware extraction\<close>

text \<open>
  \<^verbatim>\<open>PGVectorSQLQueryEngine._parse_response_to_sql\<close> (lines 480-498). Lines 482-493 repeat
  the statements of the base method, so \<open>raw_sql_str\<close> is its result.
\<close>

definition PGVector_parse_response_to_sql ::
  "('x, 'v) ServiceContext \<Rightarrow> string \<Rightarrow> string \<Rightarrow> 'x error + string" where
  "PGVector_parse_response_to_sql sc response_str query_bundle =
     (let raw_sql_str = parse_response_to_sql response_str
      in case query_embedding_str sc query_bundle of
           Inl x \<Rightarrow> Inl (Raised x)
         | Inr embedding_str \<Rightarrow>
             Inr (py_replace raw_sql_str ''[query_vector]'' embedding_str))"

text \<open>The method \<^verbatim>\<open>_parse_response_to_sql\<close> of an engine, by its class.\<close>

definition engine_parse_response_to_sql ::
  "('x, 'v) engine \<Rightarrow> string \<Rightarrow> string \<Rightarrow> 'x error + string" where
  "engine_parse_response_to_sql e response_str query_bundle =
     (case cls e of
        PGVectorSQLQueryEngine _ \<Rightarrow>
          PGVector_parse_response_to_sql (service_context e) response_str query_bundle
      | _ \<Rightarrow> Inr (parse_response_to_sql response_str))"

section \<open>The orchestrator\<close>

text \<open>
  Lines 304-335 of \<^verbatim>\<open>_query\<close> and 342-373 of \<^verbatim>\<open>_aquery\<close>: the generation, execution and
  synthesis stages, once the table context is there. The two methods differ in the predictor
  call (\<^verbatim>\<open>predict\<close> or \<^verbatim>\<open>apredict\<close>) and the synthesizer call (\<^verbatim>\<open>synthesize\<close> or
  \<^verbatim>\<open>asynthesize\<close>), taken here as \<open>pred\<close> and \<open>synth\<close>; an awaited call is the call.
\<close>

definition run_stages ::
  "(prompt_template \<Rightarrow> (string \<rightharpoonup> string) \<Rightarrow> 'x + string) \<Rightarrow>
   (prompt_template \<Rightarrow> string \<Rightarrow> string list \<Rightarrow> 'x + 'v Response) \<Rightarrow>
   ('x, 'v) engine \<Rightarrow> string \<Rightarrow> string \<Rightarrow> 'x error + 'v Response" where
  "run_stages pred synth e query_str table_desc_str =
     (case pred (text_to_sql_prompt e)
             [''query_str'' \<mapsto> query_str, ''schema'' \<mapsto> table_desc_str,
              ''dialect'' \<mapsto> dialect (sql_database e)] of
        Inl x \<Rightarrow> Inl (Raised x)
      | Inr response_str \<Rightarrow>
          (case engine_parse_response_to_sql e response_str query_str of
             Inl err \<Rightarrow> Inl err
           | Inr sql_query_str \<Rightarrow>
               (case run_sql (sql_database e) sql_query_str of
                  Inl x \<Rightarrow> Inl (Raised x)
                | Inr (raw_response_str, md) \<Rightarrow>
                    (let metadata' = md(''sql_query'' \<mapsto> PyStr sql_query_str)
                     in if synthesize_response e then
                          (let partial_synthesis_prompt =
                                 partial_format (response_synthesis_prompt e)
                                   [''sql_query'' \<mapsto> sql_query_str]
                           in case synth partial_synthesis_prompt query_str
                                     [raw_response_str] of
                                Inl x \<Rightarrow> Inl (Raised x)
                              | Inr resp \<Rightarrow>
                                  (case metadata resp of
                                     None \<Rightarrow> Inl AttributeError
                                   | Some m \<Rightarrow>
                                       Inr (resp\<lparr>metadata := Some (m ++ metadata')\<rparr>)))
                        else Inr \<lparr>response = raw_response_str,
                                  metadata = Some metadata'\<rparr>))))"

text \<open>\<^verbatim>\<open>BaseSQLTableQueryEngine._query\<close> (lines 299-335).\<close>

definition query :: "('x, 'v) engine \<Rightarrow> string \<Rightarrow> 'x error + 'v Response" where
  "query e query_str =
     (case get_table_context e query_str of
        Inl err \<Rightarrow> Inl err
      | Inr table_desc_str \<Rightarrow>
          run_stages (predict (service_context e)) (synthesize (service_context e))
            e query_str table_desc_str)"

text \<open>\<^verbatim>\<open>BaseSQLTableQueryEngine._aquery\<close> (lines 337-373).\<close>

definition aquery :: "('x, 'v) engine \<Rightarrow> string \<Rightarrow> 'x error + 'v Response" where
  "aquery e query_str =
     (case get_table_context e query_str of
        Inl err \<Rightarrow> Inl err
      | Inr table_desc_str \<Rightarrow>
          run_stages (apredict (service_context e)) (asynthesize (service_context e))
            e query_str table_desc_str)"

section \<open>The legacy natural-language engine\<close>

text \<open>\<^verbatim>\<open>NLStructStoreQueryEngine._parse_response_to_sql\<close> (lines 152-158).\<close>

definition NLStructStore_parse_response_to_sql :: "string \<Rightarrow> string" where
  "NLStructStore_parse_response_to_sql response_str =
     (let sql_result_start = py_find response_str ''SQLResult:''
      in py_strip (if sql_result_start \<noteq> - 1 then py_slice_to response_str sql_result_start
                   else response_str))"

text \<open>\<^verbatim>\<open>NLStructStoreQueryEngine._get_table_context\<close> (lines 160-181).\<close>

definition NLStructStore_get_table_context ::
  "('x, 'v) NLStructStoreQueryEngine \<Rightarrow> 'x error + string" where
  "NLStructStore_get_table_context e =
     (case SQLContextContainer.context_str (sql_context_container e) of
        Some s \<Rightarrow> Inr s
      | None \<Rightarrow>
          (case context_dict (sql_context_container e) of
             None \<Rightarrow> Inl ValueError_context_dict
           | Some d \<Rightarrow> Inr (py_join [CHR 0x0A, CHR 0x0A] (map snd d))))"

text \<open>\<^verbatim>\<open>NLStructStoreQueryEngine._query\<close> (lines 183-212).\<close>

definition NLStructStore_query ::
  "('x, 'v) NLStructStoreQueryEngine \<Rightarrow> string \<Rightarrow> 'x error + 'v Response" where
  "NLStructStore_query e query_str =
     (case NLStructStore_get_table_context e of
        Inl err \<Rightarrow> Inl err
      | Inr table_desc_str \<Rightarrow>
          (case predict (service_context e) (text_to_sql_prompt e)
                  [''query_str'' \<mapsto> query_str, ''schema'' \<mapsto> table_desc_str,
                   ''dialect'' \<mapsto> dialect (sql_database e)] of
             Inl x \<Rightarrow> Inl (Raised x)
           | Inr response_str \<Rightarrow>
               (let sql_query_str = NLStructStore_parse_response_to_sql response_str
                in case run_sql (sql_database e) sql_query_str of
                     Inl x \<Rightarrow> Inl (Raised x)
                   | Inr (raw_response_str, md) \<Rightarrow>
                       (let metadata' = md(''sql_query'' \<mapsto> PyStr sql_query_str)
                        in if synthesize_response e then
                             (case predict (service_context e) (response_synthesis_prompt e)
                                     [''query_str'' \<mapsto> query_str,
                                      ''sql_query'' \<mapsto> sql_query_str,
                                      ''sql_response_str'' \<mapsto> raw_response_str] of
                                Inl x \<Rightarrow> Inl (Raised x)
                              | Inr response_str' \<Rightarrow>
                                  Inr \<lparr>response = response_str', metadata = Some metadata'\<rparr>)
                           else Inr \<lparr>response = raw_response_str,
                                     metadata = Some metadata'\<rparr>))))"

text \<open>\<^verbatim>\<open>NLStructStoreQueryEngine._aquery\<close> (lines 214-232).\<close>

definition NLStructStore_aquery ::
  "('x, 'v) NLStructStoreQueryEngine \<Rightarrow> string \<Rightarrow> 'x error + 'v Response" where
  "NLStructStore_aquery e query_str =
     (case NLStructStore_get_table_context e of
        Inl err \<Rightarrow> Inl err
      | Inr table_desc_str \<Rightarrow>
          (case apredict (service_context e) (text_to_sql_prompt e)
                  [''query_str'' \<mapsto> query_str, ''schema'' \<mapsto> table_desc_str,
                   ''dialect'' \<mapsto> dialect (sql_database e)] of
             Inl x \<Rightarrow> Inl (Raised x)
           | Inr response_str \<Rightarrow>
               (let sql_query_str = NLStructStore_parse_response_to_sql response_str
                in case run_sql (sql_database e) sql_query_str of
                     Inl x \<Rightarrow> Inl (Raised x)
                   | Inr (response_str', md) \<Rightarrow>
                       Inr \<lparr>response = response_str',
                            metadata = Some (md(''sql_query'' \<mapsto> PyStr sql_query_str))\<rparr>)))"

section \<open>The extraction as the specification words it\<close>

text \<open>
  For comparison with \<open>parse_response_to_sql\<close>: a code-fence marker is the three-character
  string of backticks; one is removed at the start and one at the end, when present.
\<close>

definition strip_code_fence_spec :: "string \<Rightarrow> string" where
  "strip_code_fence_spec s =
     (let s1 = (if prefix ''```'' s then drop 3 s else s)
      in if suffix ''```'' s1 then take (length s1 - 3) s1 else s1)"

text \<open>
  For a completion with both markers: the text strictly between the first \<^verbatim>\<open>SQLQuery:\<close> and
  the first \<^verbatim>\<open>SQLResult:\<close> after it, trimmed, fence-stripped and trimmed again.
\<close>

definition extract_sql_spec :: "string \<Rightarrow> string option" where
  "extract_sql_spec completion =
     (case find_index ''SQLQuery:'' completion of
        None \<Rightarrow> None
      | Some i \<Rightarrow>
          (let rest = drop (i + length ''SQLQuery:'') completion
           in case find_index ''SQLResult:'' rest of
                None \<Rightarrow> None
              | Some j \<Rightarrow> Some (py_strip (strip_code_fence_spec (py_strip (take j rest))))))"

section \<open>A small database and its collaborators\<close>

text \<open>
  The scenario of the specification: a database with an \<^verbatim>\<open>orders\<close> table, a predictor that
  answers with a labelled SQL statement, and a synthesizer whose own metadata already has a
  \<^verbatim>\<open>sql_query\<close> entry.
\<close>

definition example_db :: "(unit, unit) SQLDatabase" where
  "example_db =
     \<lparr>dialect = ''sqlite'',
      get_usable_table_names = Inr [''orders'', ''customers''],
      get_single_table_info = (\<lambda>n. Inr (''Table '' @ n)),
      run_sql = (\<lambda>s. Inr (''5'', [''col_keys'' \<mapsto> PyObj ()]))\<rparr>"

definition example_sc :: "(unit, unit) ServiceContext" where
  "example_sc =
     \<lparr>predict = (\<lambda>p b. Inr ''SQLQuery: SELECT COUNT(*) FROM orders SQLResult: 5''),
      apredict = (\<lambda>p b. Inr ''SQLQuery: SELECT COUNT(*) FROM orders SQLResult: 5''),
      query_embedding_str = (\<lambda>q. Inr ''[0.5, 0.25]''),
      synthesize = (\<lambda>p q texts.
        Inr \<lparr>response = ''There are 5 orders.'',
             metadata = Some [''sql_query'' \<mapsto> PyStr ''none'']\<rparr>),
      asynthesize = (\<lambda>p q texts.
        Inr \<lparr>response = ''There are 5 orders.'',
             metadata = Some [''sql_query'' \<mapsto> PyStr ''none'']\<rparr>)\<rparr>"

definition example_prompt :: prompt_template where
  "example_prompt =
     \<lparr>template = ''{query_str} {schema} {dialect}'',
      template_vars = [''query_str'', ''schema'', ''dialect''], kwargs = Map.empty\<rparr>"

definition example_defaults :: "(unit, unit) defaults" where
  "example_defaults =
     \<lparr>DEFAULT_TEXT_TO_SQL_PROMPT = example_prompt,
      DEFAULT_TEXT_TO_SQL_PGVECTOR_PROMPT = example_prompt,
      from_defaults = example_sc\<rparr>"

definition example_engine :: "bool \<Rightarrow> unit engine_class \<Rightarrow> (unit, unit) engine" where
  "example_engine synth c =
     \<lparr>sql_database = example_db, service_context = example_sc,
      text_to_sql_prompt = example_prompt,
      response_synthesis_prompt = DEFAULT_RESPONSE_SYNTHESIS_PROMPT_V2,
      context_query_kwargs = [''orders'' \<mapsto> ''customer orders''],
      synthesize_response = synth, cls = c\<rparr>"

definition example_legacy_engine :: "(unit, unit) NLStructStoreQueryEngine" where
  "example_legacy_engine =
     \<lparr>sql_database = example_db,
      service_context =
        example_sc\<lparr>predict := (\<lambda>p b.
          if template_vars p = [''query_str'', ''schema'', ''dialect'']
          then Inr ''SELECT COUNT(*) FROM orders SQLResult: 5''
          else Inr ''There are 5 orders.''),
          apredict := (\<lambda>p b. Inr ''SELECT COUNT(*) FROM orders SQLResult: 5'')\<rparr>,
      text_to_sql_prompt = example_prompt,
      response_synthesis_prompt =
        \<lparr>template = ''{query_str} {sql_query} {sql_response_str}'',
         template_vars = [''query_str'', ''sql_query'', ''sql_response_str''],
         kwargs = Map.empty\<rparr>,
      context_query_kwargs = Map.empty,
      synthesize_response = True,
      sql_context_container = \<lparr>context_str = Some ''Table orders'', context_dict = None\<rparr>\<rparr>"

text \<open>
  The response of the orchestrator on this database with synthesis enabled, and a synthesis
  template that does not declare \<^verbatim>\<open>context_str\<close>.
\<close>

definition example_response :: "unit Response" where
  "example_response =
     \<lparr>response = ''There are 5 orders.'',
      metadata = Some ([''sql_query'' \<mapsto> PyStr ''none''] ++
        [''col_keys'' \<mapsto> PyObj (),
         ''sql_query'' \<mapsto> PyStr ''SELECT COUNT(*) FROM orders''])\<rparr>"

definition example_short_prompt :: prompt_template where
  "example_short_prompt =
     \<lparr>template = ''{query_str} {sql_query}'',
      template_vars = [''query_str'', ''sql_query''], kwargs = Map.empty\<rparr>"

section \<open>Facts about the string primitives\<close>

lemma find_index_None_iff: "find_index sub s = None \<longleftrightarrow> \<not> sublist sub s"
  by (induction s) (auto simp: sublist_Cons_right)

text \<open>\<open>find_index\<close> returns the first position at which \<open>sub\<close> starts.\<close>

lemma find_index_Some_iff:
  "find_index sub s = Some i \<longleftrightarrow>
     i \<le> length s \<and> prefix sub (drop i s) \<and> (\<forall>j<i. \<not> prefix sub (drop j s))"
proof (induction s arbitrary: i)
  case Nil
  then show ?case by auto
next
  case (Cons c cs)
  show ?case
  proof (cases "prefix sub (c # cs)")
    case True
    then show ?thesis by (cases i) auto
  next
    case False
    show ?thesis
    proof (cases i)
      case 0
      with False show ?thesis by auto
    next
      case (Suc k)
      have "(\<forall>j<Suc k. \<not> prefix sub (drop j (c # cs))) \<longleftrightarrow>
            (\<forall>j<k. \<not> prefix sub (drop j cs))"
        using False by (auto simp: less_Suc_eq_0_disj)
      with False Suc Cons.IH [of k] show ?thesis by auto
    qed
  qed
qed

lemma py_find_absent: "\<not> sublist sub s \<Longrightarrow> py_find s sub = - 1"
  by (simp add: py_find_def find_index_None_iff [symmetric])

lemma parse_no_label:
  assumes "\<not> sublist ''SQLQuery:'' completion"
  shows "parse_response_to_sql completion =
     py_strip (py_strip_chars (py_strip
       (case find_index ''SQLResult:'' completion of
          None \<Rightarrow> completion
        | Some j \<Rightarrow> take j completion)) ''```'')"
  using py_find_absent [OF assms]
  by (simp add: parse_response_to_sql_def Let_def py_find_def py_slice_to_def
      split: option.splits)

text \<open>
  With the label at its first position \<open>i\<close>, the statement starts right after the label and
  ends where \<^verbatim>\<open>SQLResult:\<close> first starts behind it.
\<close>

lemma parse_label:
  assumes "find_index ''SQLQuery:'' completion = Some i"
  shows "parse_response_to_sql completion =
     py_strip (py_strip_chars (py_strip
       (case find_index ''SQLResult:'' (drop (i + 9) completion) of
          None \<Rightarrow> drop (i + 9) completion
        | Some j \<Rightarrow> take j (drop (i + 9) completion))) ''```'')"
proof -
  have p: "prefix ''SQLQuery:'' (drop i completion)"
    using assms by (simp add: find_index_Some_iff)
  have d: "9 + i = i + 9" by simp
  show ?thesis
    using assms p
    apply (simp only: parse_response_to_sql_def Let_def py_find_def py_slice_from_def
        py_startswith_def option.case)
    apply (simp add: py_slice_to_def d split: option.splits)
    done
qed

lemma py_replace_absent: "\<not> sublist old s \<Longrightarrow> py_replace s old new = s"
proof (induction s)
  case Nil
  then show ?case by auto
next
  case (Cons c cs)
  then have "old \<noteq> []" "\<not> prefix old (c # cs)" "\<not> sublist old cs"
    by (auto simp: sublist_Cons_right)
  with Cons.IH show ?case by simp
qed

text \<open>
  A token whose first character does not occur again in it cannot start inside a piece that
  is free of it and run into the next occurrence.
\<close>

lemma no_straddle:
  assumes "t \<notin> set ts" "\<not> sublist (t # ts) p" "p \<noteq> []"
  shows "\<not> prefix (t # ts) (p @ (t # ts) @ rest)"
proof
  assume "prefix (t # ts) (p @ (t # ts) @ rest)"
  with prefix_append [of "t # ts" p "(t # ts) @ rest"]
  consider "prefix (t # ts) p"
    | us where "t # ts = p @ us" "prefix us ((t # ts) @ rest)"
    by blast
  then show False
  proof cases
    case 1
    with assms(2) show False by auto
  next
    case 2
    from 2(1) assms(3) obtain p' where p: "p = t # p'" "ts = p' @ us"
      by (cases p) auto
    show False
    proof (cases us)
      case Nil
      with 2(1) assms(2) show False by auto
    next
      case (Cons u us')
      with 2(2) have "u = t" by simp
      with Cons p(2) assms(1) show False by simp
    qed
  qed
qed

lemma py_replace_piece:
  assumes "t \<notin> set ts" "\<not> sublist (t # ts) p"
  shows "py_replace (p @ (t # ts) @ rest) (t # ts) new =
         p @ new @ py_replace rest (t # ts) new"
  using assms(2)
proof (induction p)
  case Nil
  show ?case by simp
next
  case (Cons c p)
  have np: "\<not> prefix (t # ts) ((c # p) @ (t # ts) @ rest)"
    using no_straddle [OF assms(1) Cons.prems] by simp
  have "\<not> sublist (t # ts) p"
    using Cons.prems by (simp add: sublist_Cons_right)
  with Cons.IH have ih: "py_replace (p @ (t # ts) @ rest) (t # ts) new =
      p @ new @ py_replace rest (t # ts) new" .
  have "py_replace (c # (p @ (t # ts) @ rest)) (t # ts) new =
      c # py_replace (p @ (t # ts) @ rest) (t # ts) new"
    using np by (simp del: prefix_code)
  with ih show ?case by simp
qed

lemma py_replace_join:
  assumes "t \<notin> set ts" "\<forall>p\<in>set ps. \<not> sublist (t # ts) p"
  shows "py_replace (py_join (t # ts) ps) (t # ts) new = py_join new ps"
  using assms(2)
proof (induction "t # ts" ps rule: py_join.induct)
  case 1
  show ?case by simp
next
  case (2 x)
  then show ?case by (simp add: py_replace_absent)
next
  case (3 x y ys)
  then have "\<not> sublist (t # ts) x"
    and ih: "py_replace (py_join (t # ts) (y # ys)) (t # ts) new = py_join new (y # ys)"
    by auto
  from py_replace_piece [OF assms(1) this(1), of "py_join (t # ts) (y # ys)" new] ih
  show ?case by simp
qed

lemma py_join_Cons_hd: "py_join sep ((c # x) # xs) = c # py_join sep (x # xs)"
  by (cases xs) auto

lemma py_join_Nil_hd: "xs \<noteq> [] \<Longrightarrow> py_join sep ([] # xs) = sep @ py_join sep xs"
  by (cases xs) auto

text \<open>Every string is a sequence of token-free pieces with the token between them.\<close>

lemma pieces_exist:
  assumes "tok \<noteq> []"
  shows "\<exists>ps. ps \<noteq> [] \<and> (\<forall>p\<in>set ps. \<not> sublist tok p) \<and> s = py_join tok ps"
proof (induction s)
  case Nil
  from assms show ?case by (intro exI [of _ "[[]]"]) simp
next
  case (Cons c cs)
  then obtain p0 ps' where ps: "\<not> sublist tok p0" "\<forall>p\<in>set ps'. \<not> sublist tok p"
      "cs = py_join tok (p0 # ps')"
    by (metis list.exhaust list.set_intros(1,2))
  show ?case
  proof (cases "prefix tok (c # p0)")
    case True
    then obtain p0' where p0': "c # p0 = tok @ p0'" by (auto simp: prefix_def)
    with assms have "suffix p0' p0" by (cases tok) (auto simp: suffix_def)
    then obtain zs where "p0 = zs @ p0'" by (auto simp: suffix_def)
    with ps(1) have "\<not> sublist tok p0'"
      unfolding sublist_def by (metis append.assoc)
    moreover have "c # cs = py_join tok ([] # p0' # ps')"
      using ps(3) p0' by (simp add: py_join_Cons_hd py_join_Nil_hd) (cases ps'; simp)
    ultimately show ?thesis
      using ps(2) assms by (intro exI [of _ "[] # p0' # ps'"]) simp
  next
    case False
    with ps(1) have "\<not> sublist tok (c # p0)" by (simp add: sublist_Cons_right)
    with ps(2,3) show ?thesis
      by (intro exI [of _ "(c # p0) # ps'"]) (simp add: py_join_Cons_hd)
  qed
qed

section \<open>SQL extraction: the claims\<close>

text \<open>
  C1. The claim: with both markers present, the extraction returns the text strictly between
  the first \<^verbatim>\<open>SQLQuery:\<close> and the first \<^verbatim>\<open>SQLResult:\<close> after it, trimmed, with leading and
  trailing triple-backtick fence markers stripped, and trimmed again. The cut at the markers
  is as claimed (\<open>parse_label\<close>), but \<^verbatim>\<open>strip\<close> with the three backticks as argument removes
  every leading and trailing backtick, not only a fence of three: on a statement that ends
  with a backtick-quoted identifier the code drops the closing quote, where the claimed
  extraction keeps it.
\<close>

theorem parse_response_to_sql_drops_identifier_quote:
  "parse_response_to_sql ''SQLQuery: SELECT * FROM `users` SQLResult: 5'' =
     ''SELECT * FROM `users'' \<and>
   extract_sql_spec ''SQLQuery: SELECT * FROM `users` SQLResult: 5'' =
     Some ''SELECT * FROM `users`''"
  by (simp add: parse_response_to_sql_def extract_sql_spec_def strip_code_fence_spec_def
      py_find_def py_slice_from_def py_slice_to_def py_startswith_def py_strip_def
      py_strip_chars_def py_isspace_def Let_def suffix_to_prefix)

text \<open>
  C6. The claim: a completion without \<^verbatim>\<open>SQLQuery:\<close> is returned whole, up to the first
  \<^verbatim>\<open>SQLResult:\<close> if there is one, trimmed and fence-stripped. Nothing is cut at the front
  and the cut at \<^verbatim>\<open>SQLResult:\<close> is as claimed (\<open>parse_no_label\<close>), but the fence step is
  the same \<^verbatim>\<open>strip\<close> with the three backticks as argument as in C1: on a completion
  without either marker that ends with a backtick-quoted identifier, the code drops the
  closing quote, where trimming and stripping triple-backtick fences leaves the completion
  as it is.
\<close>

theorem parse_response_to_sql_without_label_drops_quote:
  "\<not> sublist ''SQLQuery:'' ''SELECT * FROM `users`'' \<and>
   \<not> sublist ''SQLResult:'' ''SELECT * FROM `users`'' \<and>
   parse_response_to_sql ''SELECT * FROM `users`'' = ''SELECT * FROM `users'' \<and>
   py_strip (strip_code_fence_spec (py_strip ''SELECT * FROM `users`'')) =
     ''SELECT * FROM `users`''"
proof -
  have q: "\<not> sublist ''SQLQuery:'' ''SELECT * FROM `users`''"
    by (simp add: sublist_Cons_right)
  have r: "\<not> sublist ''SQLResult:'' ''SELECT * FROM `users`''"
    by (simp add: sublist_Cons_right)
  have c: "parse_response_to_sql ''SELECT * FROM `users`'' = ''SELECT * FROM `users''"
    by (simp add: parse_response_to_sql_def py_find_def py_slice_from_def py_slice_to_def
        py_startswith_def py_strip_def py_strip_chars_def py_isspace_def Let_def)
  have s: "py_strip (strip_code_fence_spec (py_strip ''SELECT * FROM `users`'')) =
      ''SELECT * FROM `users`''"
    by (simp add: strip_code_fence_spec_def py_strip_def py_isspace_def Let_def
        suffix_to_prefix)
  show ?thesis by (intro conjI q r c s)
qed

text \<open>
  C5. When the embedding of the question is obtained, the vector-aware extraction leaves a
  cleaned statement without \<^verbatim>\<open>[query_vector]\<close> as it is, and in a cleaned statement made of
  token-free pieces with the token between them it puts the stringified embedding at the
  place of every token (by \<open>pieces_exist\<close> every statement is of that form).
\<close>

theorem PGVector_replaces_every_query_vector:
  assumes "query_embedding_str sc q = Inr v"
  shows "(\<not> sublist ''[query_vector]'' (parse_response_to_sql r) \<longrightarrow>
            PGVector_parse_response_to_sql sc r q = Inr (parse_response_to_sql r)) \<and>
         (\<forall>ps. parse_response_to_sql r = py_join ''[query_vector]'' ps \<and>
               (\<forall>p\<in>set ps. \<not> sublist ''[query_vector]'' p) \<longrightarrow>
            PGVector_parse_response_to_sql sc r q = Inr (py_join v ps))"
proof -
  have tok: "CHR ''['' \<notin> set ''query_vector]''" by simp
  have pg: "PGVector_parse_response_to_sql sc r q =
      Inr (py_replace (parse_response_to_sql r) ''[query_vector]'' v)"
    using assms by (simp add: PGVector_parse_response_to_sql_def)
  show ?thesis
  proof (intro conjI allI impI)
    assume "\<not> sublist ''[query_vector]'' (parse_response_to_sql r)"
    then show "PGVector_parse_response_to_sql sc r q = Inr (parse_response_to_sql r)"
      by (simp add: pg py_replace_absent del: py_replace.simps)
  next
    fix ps
    assume a: "parse_response_to_sql r = py_join ''[query_vector]'' ps \<and>
               (\<forall>p\<in>set ps. \<not> sublist ''[query_vector]'' p)"
    then have "py_replace (py_join ''[query_vector]'' ps) ''[query_vector]'' v = py_join v ps"
      using py_replace_join [OF tok, of ps v] by blast
    with a show "PGVector_parse_response_to_sql sc r q = Inr (py_join v ps)"
      by (simp only: pg)
  qed
qed

theorem PGVector_replaces_every_query_vector_witness:
  "query_embedding_str example_sc ''q'' = Inr ''[0.5, 0.25]'' \<and>
   PGVector_parse_response_to_sql example_sc
     ''SQLQuery: a [query_vector] b [query_vector] SQLResult:'' ''q'' =
   Inr ''a [0.5, 0.25] b [0.5, 0.25]''"
proof -
  have h: "query_embedding_str example_sc ''q'' = Inr ''[0.5, 0.25]''"
    by (simp add: example_sc_def)
  have p: "parse_response_to_sql ''SQLQuery: a [query_vector] b [query_vector] SQLResult:'' =
      py_join ''[query_vector]'' [''a '', '' b '', []]"
    by (simp add: parse_response_to_sql_def py_find_def py_slice_from_def py_slice_to_def
        py_startswith_def py_strip_def py_strip_chars_def py_isspace_def Let_def)
  have f: "\<forall>p\<in>set [''a '', '' b '', []]. \<not> sublist ''[query_vector]'' p"
    by (simp add: sublist_Cons_right)
  from PGVector_replaces_every_query_vector
    [OF h, of "''SQLQuery: a [query_vector] b [query_vector] SQLResult:''"] p f
  have "PGVector_parse_response_to_sql example_sc
      ''SQLQuery: a [query_vector] b [query_vector] SQLResult:'' ''q'' =
     Inr (py_join ''[0.5, 0.25]'' [''a '', '' b '', []])" by blast
  with h show ?thesis by simp
qed

section \<open>Table context: the claims\<close>

text \<open>
  C3. The claim: a \<^verbatim>\<open>Table\<close> value is normalised to its name and accepted. The method does set
  \<^verbatim>\<open>table_str\<close> from the \<^verbatim>\<open>Table\<close>, but the following test is a second \<^verbatim>\<open>if\<close>, not an
  \<^verbatim>\<open>elif\<close>, so its \<^verbatim>\<open>else\<close> raises for the \<^verbatim>\<open>Table\<close> too: a table list that holds a
  \<^verbatim>\<open>Table\<close> is rejected with the error for an unknown table type.
\<close>

theorem Table_entry_is_rejected:
  "NLSQLTable_get_table_context db kw (Some [TableEntry ''orders'']) =
     Inl (ValueError_unknown_table (TableEntry ''orders''))"
  by (simp add: NLSQLTable_get_table_context_def table_str_of_def)


section \<open>The orchestrator: the claims\<close>

lemmas ex_defs = example_engine_def example_db_def example_sc_def example_prompt_def
  example_response_def

lemmas parse_defs = parse_response_to_sql_def py_find_def py_slice_from_def py_slice_to_def
  py_startswith_def py_strip_def py_strip_chars_def py_isspace_def Let_def

text \<open>What a returned response says about the stages that produced it.\<close>

lemma run_stages_metadata:
  assumes "run_stages pred synth e q ctx = Inr resp"
  shows "\<exists>c sql raw md m.
          pred (text_to_sql_prompt e)
            [''query_str'' \<mapsto> q, ''schema'' \<mapsto> ctx, ''dialect'' \<mapsto> dialect (sql_database e)] = Inr c \<and>
          engine_parse_response_to_sql e c q = Inr sql \<and>
          run_sql (sql_database e) sql = Inr (raw, md) \<and>
          metadata resp = Some m \<and> m ''sql_query'' = Some (PyStr sql) \<and>
          (\<forall>k\<in>dom md. k \<noteq> ''sql_query'' \<longrightarrow> m k = md k)"
proof -
  let ?b = "[''query_str'' \<mapsto> q, ''schema'' \<mapsto> ctx, ''dialect'' \<mapsto> dialect (sql_database e)]"
  from assms obtain c where c: "pred (text_to_sql_prompt e) ?b = Inr c"
    unfolding run_stages_def by (cases "pred (text_to_sql_prompt e) ?b") simp_all
  from assms c obtain sql where sql: "engine_parse_response_to_sql e c q = Inr sql"
    unfolding run_stages_def by (cases "engine_parse_response_to_sql e c q") simp_all
  from assms c sql obtain raw md where ex: "run_sql (sql_database e) sql = Inr (raw, md)"
    unfolding run_stages_def by (cases "run_sql (sql_database e) sql") auto
  let ?md' = "md(''sql_query'' \<mapsto> PyStr sql)"
  have "\<exists>m0. metadata resp = Some (m0 ++ ?md')"
  proof (cases "synthesize_response e")
    case False
    with assms c sql ex have "resp = \<lparr>response = raw, metadata = Some ?md'\<rparr>"
      unfolding run_stages_def by simp
    then have "metadata resp = Some (Map.empty ++ ?md')" by simp
    then show ?thesis by (rule exI [of _ Map.empty])
  next
    case True
    let ?s = "synth (partial_format (response_synthesis_prompt e) [''sql_query'' \<mapsto> sql]) q [raw]"
    from assms c sql ex True obtain r0 where r0: "?s = Inr r0"
      unfolding run_stages_def by (cases ?s) simp_all
    from assms c sql ex True r0 obtain m0 where m0: "metadata r0 = Some m0"
      unfolding run_stages_def by (cases "metadata r0") simp_all
    from assms c sql ex True r0 m0 have "resp = r0\<lparr>metadata := Some (m0 ++ ?md')\<rparr>"
      unfolding run_stages_def by simp
    then have "metadata resp = Some (m0 ++ ?md')" by simp
    then show ?thesis by (rule exI [of _ m0])
  qed
  then obtain m0 where m: "metadata resp = Some (m0 ++ ?md')" ..
  have q: "(m0 ++ ?md') ''sql_query'' = Some (PyStr sql)" by simp
  have d: "\<forall>k\<in>dom md. k \<noteq> ''sql_query'' \<longrightarrow> (m0 ++ ?md') k = md k"
    by (auto simp: map_add_def)
  show ?thesis
    apply (rule exI [of _ c], rule exI [of _ sql], rule exI [of _ raw], rule exI [of _ md],
        rule exI [of _ "m0 ++ ?md'"])
    apply (intro conjI)
         apply (rule c)
        apply (rule sql)
       apply (rule ex)
      apply (rule m)
     apply (rule q)
    apply (rule d)
    done
qed

text \<open>
  C2. Whenever \<^verbatim>\<open>_query\<close> or \<^verbatim>\<open>_aquery\<close> returns a response, with synthesis enabled or not,
  the metadata of the response maps \<^verbatim>\<open>sql_query\<close> to the statement that was extracted from
  the completion and passed to \<^verbatim>\<open>run_sql\<close>, and agrees with the execution metadata on every
  key of it: merging the synthesizer's metadata loses and overwrites nothing.
\<close>

theorem query_metadata_keeps_executed_sql:
  "(query e q = Inr resp \<longrightarrow>
      (\<exists>ctx c sql raw md m.
          get_table_context e q = Inr ctx \<and>
          predict (service_context e) (text_to_sql_prompt e)
            [''query_str'' \<mapsto> q, ''schema'' \<mapsto> ctx, ''dialect'' \<mapsto> dialect (sql_database e)] = Inr c \<and>
          engine_parse_response_to_sql e c q = Inr sql \<and>
          run_sql (sql_database e) sql = Inr (raw, md) \<and>
          metadata resp = Some m \<and> m ''sql_query'' = Some (PyStr sql) \<and>
          (\<forall>k\<in>dom md. k \<noteq> ''sql_query'' \<longrightarrow> m k = md k))) \<and>
   (aquery e q = Inr resp \<longrightarrow>
      (\<exists>ctx c sql raw md m.
          get_table_context e q = Inr ctx \<and>
          apredict (service_context e) (text_to_sql_prompt e)
            [''query_str'' \<mapsto> q, ''schema'' \<mapsto> ctx, ''dialect'' \<mapsto> dialect (sql_database e)] = Inr c \<and>
          engine_parse_response_to_sql e c q = Inr sql \<and>
          run_sql (sql_database e) sql = Inr (raw, md) \<and>
          metadata resp = Some m \<and> m ''sql_query'' = Some (PyStr sql) \<and>
          (\<forall>k\<in>dom md. k \<noteq> ''sql_query'' \<longrightarrow> m k = md k)))"
proof (intro conjI impI)
  assume a: "query e q = Inr resp"
  then obtain ctx where ctx: "get_table_context e q = Inr ctx"
    unfolding query_def by (cases "get_table_context e q") simp_all
  with a have "run_stages (predict (service_context e)) (synthesize (service_context e)) e q ctx = Inr resp"
    unfolding query_def by simp
  from run_stages_metadata [OF this] ctx
  show "\<exists>ctx c sql raw md m.
          get_table_context e q = Inr ctx \<and>
          predict (service_context e) (text_to_sql_prompt e)
            [''query_str'' \<mapsto> q, ''schema'' \<mapsto> ctx, ''dialect'' \<mapsto> dialect (sql_database e)] = Inr c \<and>
          engine_parse_response_to_sql e c q = Inr sql \<and>
          run_sql (sql_database e) sql = Inr (raw, md) \<and>
          metadata resp = Some m \<and> m ''sql_query'' = Some (PyStr sql) \<and>
          (\<forall>k\<in>dom md. k \<noteq> ''sql_query'' \<longrightarrow> m k = md k)"
    by (elim exE conjE) (rule exI [of _ ctx], intro exI conjI, assumption+)
next
  assume a: "aquery e q = Inr resp"
  then obtain ctx where ctx: "get_table_context e q = Inr ctx"
    unfolding aquery_def by (cases "get_table_context e q") simp_all
  with a have "run_stages (apredict (service_context e)) (asynthesize (service_context e)) e q ctx = Inr resp"
    unfolding aquery_def by simp
  from run_stages_metadata [OF this] ctx
  show "\<exists>ctx c sql raw md m.
          get_table_context e q = Inr ctx \<and>
          apredict (service_context e) (text_to_sql_prompt e)
            [''query_str'' \<mapsto> q, ''schema'' \<mapsto> ctx, ''dialect'' \<mapsto> dialect (sql_database e)] = Inr c \<and>
          engine_parse_response_to_sql e c q = Inr sql \<and>
          run_sql (sql_database e) sql = Inr (raw, md) \<and>
          metadata resp = Some m \<and> m ''sql_query'' = Some (PyStr sql) \<and>
          (\<forall>k\<in>dom md. k \<noteq> ''sql_query'' \<longrightarrow> m k = md k)"
    by (elim exE conjE) (rule exI [of _ ctx], intro exI conjI, assumption+)
qed

theorem query_metadata_keeps_executed_sql_witness:
  "query (example_engine True (NLSQLTableQueryEngine None)) ''How many orders?'' = Inr example_response \<and>
   aquery (example_engine True (NLSQLTableQueryEngine None)) ''How many orders?'' = Inr example_response \<and>
   (\<exists>sql raw md m.
      run_sql (sql_database (example_engine True (NLSQLTableQueryEngine None))) sql = Inr (raw, md) \<and>
      metadata example_response = Some m \<and> m ''sql_query'' = Some (PyStr sql))"
proof -
  let ?E = "example_engine True (NLSQLTableQueryEngine None)"
  have h1: "query ?E ''How many orders?'' = Inr example_response"
    by (simp add: query_def run_stages_def get_table_context_def NLSQLTable_get_table_context_def
        engine_parse_response_to_sql_def partial_format_def add_table_opt_context_def
        ex_defs parse_defs)
  have h2: "aquery ?E ''How many orders?'' = Inr example_response"
    by (simp add: aquery_def run_stages_def get_table_context_def NLSQLTable_get_table_context_def
        engine_parse_response_to_sql_def partial_format_def add_table_opt_context_def
        ex_defs parse_defs)
  note a = query_metadata_keeps_executed_sql [of ?E "''How many orders?''" example_response, THEN conjunct1, THEN mp, OF h1]
  from a have ex: "\<exists>sql raw md m.
      run_sql (sql_database ?E) sql = Inr (raw, md) \<and>
      metadata example_response = Some m \<and> m ''sql_query'' = Some (PyStr sql)"
    by (elim exE conjE) (intro exI conjI, assumption+)
  show ?thesis by (intro conjI h1 h2 ex)
qed

text \<open>
  C7. With \<^verbatim>\<open>synthesize_response\<close> false, once the context, the completion, the extracted
  statement and the execution result \<open>(raw, md)\<close> are there, \<^verbatim>\<open>_query\<close> and \<^verbatim>\<open>_aquery\<close>
  return exactly the text \<open>raw\<close>, and as metadata \<open>md\<close> with the \<^verbatim>\<open>sql_query\<close> key added.
\<close>

theorem query_without_synthesis_returns_raw:
  assumes "\<not> synthesize_response e"
    and "get_table_context e q = Inr ctx"
    and "engine_parse_response_to_sql e c q = Inr sql"
    and "run_sql (sql_database e) sql = Inr (raw, md)"
  shows "(predict (service_context e) (text_to_sql_prompt e)
            [''query_str'' \<mapsto> q, ''schema'' \<mapsto> ctx, ''dialect'' \<mapsto> dialect (sql_database e)] = Inr c \<longrightarrow>
          query e q = Inr \<lparr>response = raw, metadata = Some (md(''sql_query'' \<mapsto> PyStr sql))\<rparr>) \<and>
         (apredict (service_context e) (text_to_sql_prompt e)
            [''query_str'' \<mapsto> q, ''schema'' \<mapsto> ctx, ''dialect'' \<mapsto> dialect (sql_database e)] = Inr c \<longrightarrow>
          aquery e q = Inr \<lparr>response = raw, metadata = Some (md(''sql_query'' \<mapsto> PyStr sql))\<rparr>)"
  using assms by (simp add: query_def aquery_def run_stages_def)

theorem query_without_synthesis_returns_raw_witness:
  "\<not> synthesize_response (example_engine False (NLSQLTableQueryEngine (Some [StrEntry ''orders'']))) \<and>
   get_table_context (example_engine False (NLSQLTableQueryEngine (Some [StrEntry ''orders''])))
     ''How many orders?'' = Inr ''Table orders The table description is: customer orders'' \<and>
   query (example_engine False (NLSQLTableQueryEngine (Some [StrEntry ''orders''])))
     ''How many orders?'' =
     Inr \<lparr>response = ''5'',
          metadata = Some [''col_keys'' \<mapsto> PyObj (),
                           ''sql_query'' \<mapsto> PyStr ''SELECT COUNT(*) FROM orders'']\<rparr> \<and>
   aquery (example_engine False (NLSQLTableQueryEngine (Some [StrEntry ''orders''])))
     ''How many orders?'' =
     Inr \<lparr>response = ''5'',
          metadata = Some [''col_keys'' \<mapsto> PyObj (),
                           ''sql_query'' \<mapsto> PyStr ''SELECT COUNT(*) FROM orders'']\<rparr>"
proof -
  let ?E = "example_engine False (NLSQLTableQueryEngine (Some [StrEntry ''orders'']))"
  let ?q = "''How many orders?''"
  let ?ctx = "''Table orders The table description is: customer orders''"
  let ?c = "''SQLQuery: SELECT COUNT(*) FROM orders SQLResult: 5''"
  let ?sql = "''SELECT COUNT(*) FROM orders''"
  let ?b = "[''query_str'' \<mapsto> ?q, ''schema'' \<mapsto> ?ctx, ''dialect'' \<mapsto> dialect (sql_database ?E)]"
  have h1: "\<not> synthesize_response ?E" by (simp add: example_engine_def)
  have h2: "get_table_context ?E ?q = Inr ?ctx"
    by (simp add: get_table_context_def NLSQLTable_get_table_context_def table_str_of_def
        add_table_opt_context_def ex_defs)
  have h3: "engine_parse_response_to_sql ?E ?c ?q = Inr ?sql"
    by (simp add: engine_parse_response_to_sql_def example_engine_def parse_defs)
  have h4: "run_sql (sql_database ?E) ?sql = Inr (''5'', [''col_keys'' \<mapsto> PyObj ()])"
    by (simp add: ex_defs)
  have p: "predict (service_context ?E) (text_to_sql_prompt ?E) ?b = Inr ?c"
    by (simp add: ex_defs)
  have ap: "apredict (service_context ?E) (text_to_sql_prompt ?E) ?b = Inr ?c"
    by (simp add: ex_defs)
  note r = query_without_synthesis_returns_raw [OF h1 h2 h3 h4]
  note r1 = r [THEN conjunct1, THEN mp, OF p]
  note r2 = r [THEN conjunct2, THEN mp, OF ap]
  show ?thesis by (intro conjI h1 h2 r1 r2)
qed



section \<open>Table order\<close>

lemma tables_loop_names:
  assumes "\<forall>n\<in>set names. get_single_table_info db n = Inr (info n)"
  shows "tables_loop db kw (map StrEntry names) acc =
         Inr (acc @ map (\<lambda>n. add_table_opt_context (info n) (kw n)) names)"
  using assms by (induction names arbitrary: acc) (simp_all add: table_str_of_def)

lemma table_names_loop_names:
  assumes "\<forall>n\<in>set names. get_single_table_info db n = Inr (info n)"
  shows "table_names_loop db kw names acc =
         Inr (acc @ map (\<lambda>n. add_table_opt_context (info n) (kw n)) names)"
  using assms by (induction names arbitrary: acc) simp_all

text \<open>
  C8. When the database describes every table of the list, the fixed-list provider returns
  the descriptions (each with its optional annotation) in the order of the caller's list,
  and without a table list (\<^verbatim>\<open>None\<close> or empty) in the order of the usable table names the
  database reports; consecutive entries are separated by two newlines.
\<close>

theorem NLSQLTable_context_keeps_table_order:
  assumes "\<forall>n\<in>set names. get_single_table_info db n = Inr (info n)"
  shows "(names \<noteq> [] \<longrightarrow>
            NLSQLTable_get_table_context db kw (Some (map StrEntry names)) =
            Inr (py_join [CHR 0x0A, CHR 0x0A]
                  (map (\<lambda>n. add_table_opt_context (info n) (kw n)) names))) \<and>
         (get_usable_table_names db = Inr names \<longrightarrow>
            NLSQLTable_get_table_context db kw None =
            Inr (py_join [CHR 0x0A, CHR 0x0A]
                  (map (\<lambda>n. add_table_opt_context (info n) (kw n)) names)) \<and>
            NLSQLTable_get_table_context db kw (Some []) =
            Inr (py_join [CHR 0x0A, CHR 0x0A]
                  (map (\<lambda>n. add_table_opt_context (info n) (kw n)) names)))"
  by (simp add: NLSQLTable_get_table_context_def tables_loop_names [OF assms]
      table_names_loop_names [OF assms])

theorem NLSQLTable_context_keeps_table_order_witness:
  "get_single_table_info example_db ''orders'' = Inr ''Table orders'' \<and>
   get_single_table_info example_db ''customers'' = Inr ''Table customers'' \<and>
   get_usable_table_names example_db = Inr [''orders'', ''customers''] \<and>
   NLSQLTable_get_table_context example_db [''customers'' \<mapsto> ''who buys'']
     (Some [StrEntry ''orders'', StrEntry ''customers'']) =
     Inr (''Table orders'' @ [CHR 0x0A, CHR 0x0A] @
          ''Table customers The table description is: who buys'') \<and>
   NLSQLTable_get_table_context example_db [''customers'' \<mapsto> ''who buys''] None =
     Inr (''Table orders'' @ [CHR 0x0A, CHR 0x0A] @
          ''Table customers The table description is: who buys'')"
proof -
  have h: "\<forall>n\<in>set [''orders'', ''customers''].
      get_single_table_info example_db n = Inr (''Table '' @ n)"
    by (simp add: example_db_def)
  have u: "get_usable_table_names example_db = Inr [''orders'', ''customers'']"
    by (simp add: example_db_def)
  note r = NLSQLTable_context_keeps_table_order [OF h, of "[''customers'' \<mapsto> ''who buys'']"]
  have r1: "NLSQLTable_get_table_context example_db [''customers'' \<mapsto> ''who buys'']
     (Some [StrEntry ''orders'', StrEntry ''customers'']) =
     Inr (''Table orders'' @ [CHR 0x0A, CHR 0x0A] @
          ''Table customers The table description is: who buys'')"
    using r [THEN conjunct1] by (simp add: add_table_opt_context_def)
  have r2: "NLSQLTable_get_table_context example_db [''customers'' \<mapsto> ''who buys''] None =
     Inr (''Table orders'' @ [CHR 0x0A, CHR 0x0A] @
          ''Table customers The table description is: who buys'')"
    using r [THEN conjunct2, THEN mp, OF u, THEN conjunct1]
    by (simp add: add_table_opt_context_def)
  have i1: "get_single_table_info example_db ''orders'' = Inr ''Table orders''"
    by (simp add: example_db_def)
  have i2: "get_single_table_info example_db ''customers'' = Inr ''Table customers''"
    by (simp add: example_db_def)
  show ?thesis by (intro conjI i1 i2 u r1 r2)
qed

section \<open>Construction and the legacy engine: the claims\<close>

text \<open>
  C4. A custom synthesis template whose set of declared variables is not
  \<^verbatim>\<open>{query_str, sql_query, context_str}\<close> (for one, a template without \<^verbatim>\<open>context_str\<close>) makes
  the base constructor, and so the constructor of every engine, fail with the
  \<^verbatim>\<open>ValueError\<close> of \<^verbatim>\<open>_validate_prompt\<close>: no engine is built that could take a query.
\<close>

theorem init_rejects_other_template_vars:
  assumes "set (template_vars p) \<noteq> {''query_str'', ''sql_query'', ''context_str''}"
  shows "base_init dflt c db t2s ctx_kwargs synth (Some p) sc = Inl ValueError_template_vars \<and>
         NLSQLTableQueryEngine_init dflt db t2s ctx_kwargs synth (Some p) tables sc =
           Inl ValueError_template_vars \<and>
         PGVectorSQLQueryEngine_init dflt db t2s ctx_kwargs synth (Some p) tables sc =
           Inl ValueError_template_vars \<and>
         SQLTableRetrieverQueryEngine_init dflt db retriever t2s ctx_kwargs synth (Some p) sc prefix_str =
           Inl ValueError_template_vars"
proof -
  have "template_vars p \<noteq> template_vars DEFAULT_RESPONSE_SYNTHESIS_PROMPT_V2"
    using assms by (auto simp: DEFAULT_RESPONSE_SYNTHESIS_PROMPT_V2_def)
  then have "\<And>c t. base_init dflt c db t ctx_kwargs synth (Some p) sc = Inl ValueError_template_vars"
    by (simp add: base_init_def validate_prompt_def or_default_def)
  then show ?thesis
    by (simp add: NLSQLTableQueryEngine_init_def PGVectorSQLQueryEngine_init_def
        SQLTableRetrieverQueryEngine_init_def)
qed

theorem init_rejects_other_template_vars_witness:
  "set (template_vars example_short_prompt) \<noteq> {''query_str'', ''sql_query'', ''context_str''} \<and>
   ''context_str'' \<notin> set (template_vars example_short_prompt) \<and>
   NLSQLTableQueryEngine_init example_defaults example_db None None True
     (Some example_short_prompt) None None = Inl ValueError_template_vars"
proof -
  have m: "''context_str'' \<notin> set (template_vars example_short_prompt)"
    by (simp add: example_short_prompt_def)
  then have h: "set (template_vars example_short_prompt) \<noteq>
      {''query_str'', ''sql_query'', ''context_str''}"
    by blast
  note r = init_rejects_other_template_vars [OF h, of example_defaults _ example_db None None True None None,
      THEN conjunct2, THEN conjunct1]
  show ?thesis by (intro conjI h m r)
qed

text \<open>
  C10. The asynchronous path of the legacy engine returns the raw execution text with the
  \<^verbatim>\<open>sql_query\<close> key set, whatever \<^verbatim>\<open>synthesize_response\<close> is; with synthesis enabled the
  synchronous path returns the synthesized text, so the two responses differ whenever that
  text is not the raw one.
\<close>

theorem NLStructStore_aquery_never_synthesizes:
  assumes "NLStructStore_get_table_context e = Inr ctx"
    and "apredict (service_context e) (text_to_sql_prompt e)
           [''query_str'' \<mapsto> q, ''schema'' \<mapsto> ctx, ''dialect'' \<mapsto> dialect (sql_database e)] = Inr c"
    and "run_sql (sql_database e) (NLStructStore_parse_response_to_sql c) = Inr (raw, md)"
  shows "NLStructStore_aquery e q =
           Inr \<lparr>response = raw,
                metadata = Some (md(''sql_query'' \<mapsto> PyStr (NLStructStore_parse_response_to_sql c)))\<rparr> \<and>
         (synthesize_response e \<and>
          predict (service_context e) (text_to_sql_prompt e)
           [''query_str'' \<mapsto> q, ''schema'' \<mapsto> ctx, ''dialect'' \<mapsto> dialect (sql_database e)] = Inr c \<and>
          predict (service_context e) (response_synthesis_prompt e)
           [''query_str'' \<mapsto> q, ''sql_query'' \<mapsto> NLStructStore_parse_response_to_sql c,
            ''sql_response_str'' \<mapsto> raw] = Inr reworded \<longrightarrow>
          NLStructStore_query e q =
            Inr \<lparr>response = reworded,
                 metadata = Some (md(''sql_query'' \<mapsto> PyStr (NLStructStore_parse_response_to_sql c)))\<rparr> \<and>
          (reworded \<noteq> raw \<longrightarrow> NLStructStore_query e q \<noteq> NLStructStore_aquery e q))"
proof (intro conjI impI)
  show a: "NLStructStore_aquery e q =
           Inr \<lparr>response = raw,
                metadata = Some (md(''sql_query'' \<mapsto> PyStr (NLStructStore_parse_response_to_sql c)))\<rparr>"
    using assms by (simp add: NLStructStore_aquery_def)
  assume s: "synthesize_response e \<and>
          predict (service_context e) (text_to_sql_prompt e)
           [''query_str'' \<mapsto> q, ''schema'' \<mapsto> ctx, ''dialect'' \<mapsto> dialect (sql_database e)] = Inr c \<and>
          predict (service_context e) (response_synthesis_prompt e)
           [''query_str'' \<mapsto> q, ''sql_query'' \<mapsto> NLStructStore_parse_response_to_sql c,
            ''sql_response_str'' \<mapsto> raw] = Inr reworded"
  show b: "NLStructStore_query e q =
            Inr \<lparr>response = reworded,
                 metadata = Some (md(''sql_query'' \<mapsto> PyStr (NLStructStore_parse_response_to_sql c)))\<rparr>"
    using assms s by (simp add: NLStructStore_query_def)
  assume "reworded \<noteq> raw"
  with a b show "NLStructStore_query e q \<noteq> NLStructStore_aquery e q" by simp
qed

theorem NLStructStore_aquery_never_synthesizes_witness:
  "synthesize_response example_legacy_engine \<and>
   NLStructStore_get_table_context example_legacy_engine = Inr ''Table orders'' \<and>
   NLStructStore_aquery example_legacy_engine ''How many orders?'' =
     Inr \<lparr>response = ''5'',
          metadata = Some [''col_keys'' \<mapsto> PyObj (),
                           ''sql_query'' \<mapsto> PyStr ''SELECT COUNT(*) FROM orders'']\<rparr> \<and>
   NLStructStore_query example_legacy_engine ''How many orders?'' =
     Inr \<lparr>response = ''There are 5 orders.'',
          metadata = Some [''col_keys'' \<mapsto> PyObj (),
                           ''sql_query'' \<mapsto> PyStr ''SELECT COUNT(*) FROM orders'']\<rparr> \<and>
   NLStructStore_query example_legacy_engine ''How many orders?'' \<noteq>
   NLStructStore_aquery example_legacy_engine ''How many orders?''"
proof -
  let ?E = "example_legacy_engine"
  let ?q = "''How many orders?''"
  let ?c = "''SELECT COUNT(*) FROM orders SQLResult: 5''"
  let ?b = "[''query_str'' \<mapsto> ?q, ''schema'' \<mapsto> ''Table orders'',
             ''dialect'' \<mapsto> dialect (sql_database ?E)]"
  have ps: "NLStructStore_parse_response_to_sql ?c = ''SELECT COUNT(*) FROM orders''"
    by (simp add: NLStructStore_parse_response_to_sql_def parse_defs)
  have h0: "synthesize_response ?E" by (simp add: example_legacy_engine_def)
  have h1: "NLStructStore_get_table_context ?E = Inr ''Table orders''"
    by (simp add: NLStructStore_get_table_context_def example_legacy_engine_def)
  have h2: "apredict (service_context ?E) (text_to_sql_prompt ?E) ?b = Inr ?c"
    by (simp add: example_legacy_engine_def ex_defs)
  have h3: "run_sql (sql_database ?E) (NLStructStore_parse_response_to_sql ?c) =
      Inr (''5'', [''col_keys'' \<mapsto> PyObj ()])"
    by (simp add: example_legacy_engine_def ex_defs)
  have p1: "predict (service_context ?E) (text_to_sql_prompt ?E) ?b = Inr ?c"
    by (simp add: example_legacy_engine_def ex_defs)
  have p2: "predict (service_context ?E) (response_synthesis_prompt ?E)
       [''query_str'' \<mapsto> ?q, ''sql_query'' \<mapsto> NLStructStore_parse_response_to_sql ?c,
        ''sql_response_str'' \<mapsto> ''5''] = Inr ''There are 5 orders.''"
    by (simp add: example_legacy_engine_def ex_defs)
  have ne: "''There are 5 orders.'' \<noteq> ''5''" by simp
  note r = NLStructStore_aquery_never_synthesizes [OF h1 h2 h3, of "''There are 5 orders.''"]
  note a = r [THEN conjunct1, unfolded ps]
  note b = r [THEN conjunct2, THEN mp, OF conjI [OF h0 conjI [OF p1 p2]]]
  note b1 = b [THEN conjunct1, unfolded ps]
  note b2 = b [THEN conjunct2, THEN mp, OF ne]
  show ?thesis by (intro conjI h0 h1 a b1 b2)
qed

end
